theory Spec2Isabelle
  imports Main "HOL-Library.Word"
begin

section \<open>Assembly of mutual-approximation observation partials\<close>

text \<open>
  A shallow embedding of \<^verbatim>\<open>createMutualApproximationPartials.h\<close>: the function that builds
  one partial with respect to a parameter, the single-link assembly functions of the
  single-valued and of the two-valued observable, and the batch assembly over a vector
  of link ends.

  Exceptions (\<^verbatim>\<open>std::runtime_error\<close>) are values of the type \<open>error\<close>, returned on the
  left of a sum. Output on \<^verbatim>\<open>std::cerr\<close> is a list of diagnostics that is returned also
  when the call throws. A \<^verbatim>\<open>std::shared_ptr\<close> that may be \<^verbatim>\<open>nullptr\<close> is an \<open>option\<close>.
  Scaling objects are created by \<^verbatim>\<open>std::make_shared\<close> and then shared by reference, so
  they live in an explicit store; a reference to one is its address in the store.
\<close>

subsection \<open>Data\<close>

text \<open>
  The C++ type \<^verbatim>\<open>int\<close>: 32 bits, read as two's complement by \<open>sint\<close>. Signed
  overflow is undefined in C++; here \<open>+\<close> wraps.
\<close>

type_synonym cint = "32 word"

text \<open>
  \<^verbatim>\<open>observation_models::LinkEndType\<close>. The header that declares the enumeration is not
  among the sources; the three roles named in the code are constructors of their own,
  \<open>other_link_end\<close> stands for every further enumerator.
\<close>

datatype LinkEndType = transmitter | transmitter2 | receiver | other_link_end nat

text \<open>\<^verbatim>\<open>LinkEndId\<close> is a body name and a reference-point name.\<close>

type_synonym LinkEndId = "string \<times> string"

text \<open>
  \<^verbatim>\<open>LinkEnds\<close> is a \<^verbatim>\<open>std::map< LinkEndType, LinkEndId >\<close>: the list of its entries.
  \<^verbatim>\<open>linkEnds.count( k ) == 0\<close> is \<open>map_of linkEnds k = None\<close>.
\<close>

type_synonym LinkEnds = "(LinkEndType \<times> LinkEndId) list"

text \<open>
  \<^verbatim>\<open>estimatable_parameters::EstimatebleParametersEnum\<close>: the two enumerators the code
  compares with, and \<open>other_parameter\<close> for every further one.
\<close>

datatype EstimatebleParametersEnum =
  initial_body_state | arc_wise_initial_body_state | other_parameter nat

text \<open>
  The result of \<^verbatim>\<open>getParameterName( )\<close>: a pair of the enumerator and a pair of strings,
  read in the code with \<^verbatim>\<open>.first\<close> and \<^verbatim>\<open>.second.first\<close>.
\<close>

type_synonym EstimatebleParameterIdentifier =
  "EstimatebleParametersEnum \<times> (string \<times> string)"

text \<open>
  \<^verbatim>\<open>EstimatableParameter< T >\<close>, as far as the code reads it: \<^verbatim>\<open>getParameterName( )\<close>
  and \<^verbatim>\<open>getParameterSize( )\<close>.
\<close>

record EstimatableParameter =
  getParameterName :: EstimatebleParameterIdentifier
  getParameterSize :: cint

text \<open>
  \<^verbatim>\<open>EstimatableParameterSet\<close>, as far as the code reads it. The two
  \<^verbatim>\<open>std::map< int, ... >\<close> are the lists of their entries in iteration order.
\<close>

record EstimatableParameterSet =
  getEstimatedInitialStateParameters :: "EstimatableParameter list"
  getDoubleParameters :: "(cint \<times> EstimatableParameter) list"
  getVectorParameters :: "(cint \<times> EstimatableParameter) list"

text \<open>
  Objects of the collaborating classes that the code only hands on are identified by a
  number: the body map, a light-time correction, a light-time correction partial, a
  Cartesian state partial, the dependent-variables interface, a partial with respect to
  a link property.
\<close>

type_synonym NamedBodyMap = nat
type_synonym LightTimeCorrection = nat
type_synonym LightTimeCorrectionPartial = nat
type_synonym CartesianStatePartial = nat
type_synonym DependentVariablesInterface = nat
type_synonym LinkPropertyPartial = nat

datatype ObservableType =
  mutual_approximation | mutual_approximation_with_impact_parameter
  | impact_parameter_mutual_approx

text \<open>
  The classes derived from \<^verbatim>\<open>PositionPartialScaling\<close> that the two assembly functions
  construct, each from the (possibly null) dependent-variables interface.
\<close>

datatype Scaling =
  MutualApproximationScaling "DependentVariablesInterface option"
  | ModifiedMutualApproximationScaling "DependentVariablesInterface option"
  | MutualApproximationWithImpactParameterScaling "DependentVariablesInterface option"

text \<open>
  The store of scaling objects. The address of an object is its position in the list;
  \<open>make_shared\<close> puts a new object behind the existing ones and returns the reference
  to it, which is not null.
\<close>

type_synonym addr = nat
type_synonym Heap = "Scaling list"
type_synonym ScalingPtr = "addr option"

definition make_shared :: "Scaling \<Rightarrow> Heap \<Rightarrow> ScalingPtr \<times> Heap" where
  "make_shared obj heap = (Some (length heap), heap @ [obj])"

text \<open>
  \<^verbatim>\<open>MutualApproximationPartial\<close> and \<^verbatim>\<open>MutualApproximationWithImpactParameterPartial\<close>:
  the four arguments of the constructor as the code passes them. The scaling object is
  held by reference.
\<close>

record MutualApproximationPartial =
  scaler :: ScalingPtr
  positionPartialList :: "(LinkEndType \<times> CartesianStatePartial) list"
  parameterIdentifier :: EstimatebleParameterIdentifier
  lighTimeCorrectionPartials :: "LightTimeCorrectionPartial list list"

text \<open>
  What a \<^verbatim>\<open>std::shared_ptr< ObservationPartial< 1 > >\<close> in the block map points to: a
  \<^verbatim>\<open>MutualApproximationPartial\<close>, or the object that
  \<^verbatim>\<open>createObservationPartialWrtLinkProperty< 1 >\<close> returned. The same for
  \<^verbatim>\<open>ObservationPartial< 2 >\<close>.
\<close>

datatype ObservationPartial1 =
  MutualApproximationPartialObj MutualApproximationPartial
  | LinkPropertyPartialObj1 LinkPropertyPartial


text \<open>
  The scaling object that a partial of the block map refers to. The partial with respect
  to a link property is made from the link ends, the observable type and the parameter
  (lines 241 to 242); no scaling object is handed to its constructor.
\<close>

fun scalingOf :: "ObservationPartial1 \<Rightarrow> ScalingPtr" where
  "scalingOf (MutualApproximationPartialObj partial) = scaler partial"
| "scalingOf (LinkPropertyPartialObj1 partial) = None"

text \<open>
  \<^verbatim>\<open>SingleLinkObservationPartialList\<close> and \<^verbatim>\<open>SingleLinkObservationTwoPartialList\<close>:
  a \<^verbatim>\<open>std::map\<close> from the pair (start index, size) to the partial.
\<close>

type_synonym SingleLinkObservationPartialList = "cint \<times> cint \<rightharpoonup> ObservationPartial1"

text \<open>The exceptions the code throws, and the line it writes to \<^verbatim>\<open>std::cerr\<close>.\<close>

datatype error =
  LightTimeCorrectionsSizeError nat
    \<comment> \<open>"... light time corrections for N links found, instead of 2."\<close>
  | CouldNotIdentifyParameter
    \<comment> \<open>"... could not identify parameter"\<close>
  | LinkEndsMissing
    \<comment> \<open>"... did not find both transmitter, transmitter2 and receiver in link ends"\<close>

datatype diagnostic =
  LightTimeCorrectionsSizeDiagnostic nat
    \<comment> \<open>"... light time corrections for N links found, instead of 2."\<close>

subsection \<open>Functions of other files\<close>

text \<open>
  The functions that the header calls and that other files of the repository define
  are parameters of the model. They are taken to return (none of them throws).
  \<^item> \<open>createLightTimeCorrectionPartials\<close>: the partial objects of one leg's corrections.
  \<^item> \<open>createCartesianStatePartialsWrtParameter\<close>: the position partials per link end
    type of a parameter. Its overloads for double and for vector parameters are one
    function of the parameter object here: the kind of a parameter fixes which of the
    two it is.
  \<^item> \<open>createMutualApproximationPartialWrtBodyPosition\<close> and
    \<open>createMutualApproximationWithImpactParameterPartialWrtBodyPosition\<close>: declared in
    the header, defined elsewhere; \<open>None\<close> is \<^verbatim>\<open>nullptr\<close>.
  \<^item> \<open>getNumberOfLighTimeCorrectionPartialsFunctions\<close>, a member of either partial class
    (the second field is the member of the two-valued class).
  \<^item> \<open>isParameterObservationLinkProperty\<close> and \<open>createObservationPartialWrtLinkProperty\<close>;
    the template argument of the latter is fixed by the observable type it is called with.
\<close>

record Externals =
  createLightTimeCorrectionPartials ::
    "LightTimeCorrection list \<Rightarrow> LightTimeCorrectionPartial list"
  createCartesianStatePartialsWrtParameter ::
    "LinkEnds \<Rightarrow> NamedBodyMap \<Rightarrow> EstimatableParameter
      \<Rightarrow> (LinkEndType \<times> CartesianStatePartial) list"
  createMutualApproximationPartialWrtBodyPosition ::
    "LinkEnds \<Rightarrow> NamedBodyMap \<Rightarrow> string \<Rightarrow> ScalingPtr
      \<Rightarrow> LightTimeCorrectionPartial list list \<Rightarrow> MutualApproximationPartial option"
  createMutualApproximationWithImpactParameterPartialWrtBodyPosition ::
    "LinkEnds \<Rightarrow> NamedBodyMap \<Rightarrow> string \<Rightarrow> ScalingPtr
      \<Rightarrow> LightTimeCorrectionPartial list list \<Rightarrow> MutualApproximationPartial option"
  getNumberOfLighTimeCorrectionPartialsFunctions :: "MutualApproximationPartial \<Rightarrow> cint"
  getNumberOfLighTimeCorrectionPartialsFunctions2 :: "MutualApproximationPartial \<Rightarrow> cint"
  isParameterObservationLinkProperty :: "EstimatebleParametersEnum \<Rightarrow> bool"
  createObservationPartialWrtLinkProperty ::
    "LinkEnds \<Rightarrow> ObservableType \<Rightarrow> EstimatableParameter \<Rightarrow> LinkPropertyPartial option"

subsection \<open>The partial with respect to one parameter\<close>

text \<open>
  \<^verbatim>\<open>createMutualApproximationPartialWrtParameter\<close> (lines 72 to 99): the partial object
  is built in any case and returned only if there is a position partial or a light-time
  correction partial function; otherwise the result is \<^verbatim>\<open>nullptr\<close>.
\<close>

definition createMutualApproximationPartialWrtParameter ::
  "Externals \<Rightarrow> LinkEnds \<Rightarrow> NamedBodyMap \<Rightarrow> EstimatableParameter \<Rightarrow> ScalingPtr
    \<Rightarrow> LightTimeCorrectionPartial list list \<Rightarrow> MutualApproximationPartial option" where
  "createMutualApproximationPartialWrtParameter ext mutualApproximationLinkEnds bodyMap
      parameterToEstimate mutualApproximationScaler lightTimeCorrectionPartialObjects =
    (let positionPartials = createCartesianStatePartialsWrtParameter ext
           mutualApproximationLinkEnds bodyMap parameterToEstimate;
         testMutualApproximationPartial =
           \<lparr> scaler = mutualApproximationScaler,
             positionPartialList = positionPartials,
             parameterIdentifier = getParameterName parameterToEstimate,
             lighTimeCorrectionPartials = lightTimeCorrectionPartialObjects \<rparr>
     in if length positionPartials > 0
           \<or> getNumberOfLighTimeCorrectionPartialsFunctions ext testMutualApproximationPartial \<noteq> 0
        then Some testMutualApproximationPartial
        else None)"


subsection \<open>Single-link assembly, single-valued observable\<close>

text \<open>
  Lines 131 to 143: the light-time correction partial objects. An empty list of
  correction groups is accepted and gives no objects; any other number of groups than
  two throws.
\<close>

definition lightTimeCorrectionPartialObjectsOf ::
  "Externals \<Rightarrow> LightTimeCorrection list list
    \<Rightarrow> error + LightTimeCorrectionPartial list list" where
  "lightTimeCorrectionPartialObjectsOf ext lightTimeCorrections =
    (if length lightTimeCorrections > 0
     then if length lightTimeCorrections \<noteq> 2
          then Inl (LightTimeCorrectionsSizeError (length lightTimeCorrections))
          else Inr [createLightTimeCorrectionPartials ext (lightTimeCorrections ! 0),
                    createLightTimeCorrectionPartials ext (lightTimeCorrections ! 1)]
     else Inr [])"

text \<open>
  Lines 171 to 183: the body of which the initial state is estimated, read from the
  parameter name; any other kind of parameter throws.
\<close>

definition acceleratedBodyOf :: "EstimatableParameter \<Rightarrow> error + string" where
  "acceleratedBodyOf p =
    (if fst (getParameterName p) = initial_body_state
     then Inr (fst (snd (getParameterName p)))
     else if fst (getParameterName p) = arc_wise_initial_body_state
     then Inr (fst (snd (getParameterName p)))
     else Inl CouldNotIdentifyParameter)"

text \<open>
  Lines 168 to 200: the loop over the initial-state parameters. The state of the loop is
  the block map and \<^verbatim>\<open>currentIndex\<close>; both are returned when the loop ends.
\<close>

fun initialStateLoop ::
  "Externals \<Rightarrow> LinkEnds \<Rightarrow> NamedBodyMap \<Rightarrow> ScalingPtr \<Rightarrow> LightTimeCorrectionPartial list list
    \<Rightarrow> EstimatableParameter list \<Rightarrow> cint \<Rightarrow> SingleLinkObservationPartialList
    \<Rightarrow> error + (SingleLinkObservationPartialList \<times> cint)" where
  "initialStateLoop ext linkEnds bodyMap scaling ltcPartials [] currentIndex partials =
     Inr (partials, currentIndex)"
| "initialStateLoop ext linkEnds bodyMap scaling ltcPartials (p # ps) currentIndex partials =
     (case acceleratedBodyOf p of
        Inl e \<Rightarrow> Inl e
      | Inr acceleratedBody \<Rightarrow>
          (case createMutualApproximationPartialWrtBodyPosition ext linkEnds bodyMap
                  acceleratedBody scaling ltcPartials of
             Some currentMutualApproximationPartial \<Rightarrow>
               initialStateLoop ext linkEnds bodyMap scaling ltcPartials ps (currentIndex + 6)
                 (partials((currentIndex, 6) \<mapsto>
                    MutualApproximationPartialObj currentMutualApproximationPartial))
           | None \<Rightarrow>
               initialStateLoop ext linkEnds bodyMap scaling ltcPartials ps (currentIndex + 6)
                 partials))"

text \<open>Lines 202 to 220: the loop over the double parameters.\<close>

fun doubleParameterLoop ::
  "Externals \<Rightarrow> LinkEnds \<Rightarrow> NamedBodyMap \<Rightarrow> ScalingPtr \<Rightarrow> LightTimeCorrectionPartial list list
    \<Rightarrow> (cint \<times> EstimatableParameter) list \<Rightarrow> SingleLinkObservationPartialList
    \<Rightarrow> SingleLinkObservationPartialList" where
  "doubleParameterLoop ext linkEnds bodyMap scaling ltcPartials [] partials = partials"
| "doubleParameterLoop ext linkEnds bodyMap scaling ltcPartials ((first, second) # rest) partials =
     (case createMutualApproximationPartialWrtParameter ext linkEnds bodyMap second scaling
             ltcPartials of
        Some currentMutualApproximationPartial \<Rightarrow>
          doubleParameterLoop ext linkEnds bodyMap scaling ltcPartials rest
            (partials((first, 1) \<mapsto>
               MutualApproximationPartialObj currentMutualApproximationPartial))
      | None \<Rightarrow> doubleParameterLoop ext linkEnds bodyMap scaling ltcPartials rest partials)"

text \<open>
  Lines 231 to 243: the partial of one vector parameter, through the position partials
  unless the parameter is a property of the observation link.
\<close>

definition vectorParameterPartial ::
  "Externals \<Rightarrow> LinkEnds \<Rightarrow> NamedBodyMap \<Rightarrow> ScalingPtr \<Rightarrow> LightTimeCorrectionPartial list list
    \<Rightarrow> EstimatableParameter \<Rightarrow> ObservationPartial1 option" where
  "vectorParameterPartial ext linkEnds bodyMap scaling ltcPartials second =
    (if \<not> isParameterObservationLinkProperty ext (fst (getParameterName second))
     then map_option MutualApproximationPartialObj
            (createMutualApproximationPartialWrtParameter ext linkEnds bodyMap second scaling
               ltcPartials)
     else map_option LinkPropertyPartialObj1
            (createObservationPartialWrtLinkProperty ext linkEnds mutual_approximation second))"

text \<open>Lines 222 to 254: the loop over the vector parameters.\<close>

fun vectorParameterLoop ::
  "Externals \<Rightarrow> LinkEnds \<Rightarrow> NamedBodyMap \<Rightarrow> ScalingPtr \<Rightarrow> LightTimeCorrectionPartial list list
    \<Rightarrow> (cint \<times> EstimatableParameter) list \<Rightarrow> SingleLinkObservationPartialList
    \<Rightarrow> SingleLinkObservationPartialList" where
  "vectorParameterLoop ext linkEnds bodyMap scaling ltcPartials [] partials = partials"
| "vectorParameterLoop ext linkEnds bodyMap scaling ltcPartials ((first, second) # rest) partials =
     (case vectorParameterPartial ext linkEnds bodyMap scaling ltcPartials second of
        Some currentMutualApproximationPartial \<Rightarrow>
          vectorParameterLoop ext linkEnds bodyMap scaling ltcPartials rest
            (partials((first, getParameterSize second) \<mapsto> currentMutualApproximationPartial))
      | None \<Rightarrow> vectorParameterLoop ext linkEnds bodyMap scaling ltcPartials rest partials)"

text \<open>
  \<^verbatim>\<open>createMutualApproximationPartials\<close> for one link (lines 117 to 256). The result is
  the exception, or the block map with the reference to the scaling object, and the
  store after the call.
\<close>

definition createMutualApproximationPartials ::
  "Externals \<Rightarrow> LinkEnds \<Rightarrow> NamedBodyMap \<Rightarrow> EstimatableParameterSet \<Rightarrow> bool
    \<Rightarrow> LightTimeCorrection list list \<Rightarrow> DependentVariablesInterface option \<Rightarrow> Heap
    \<Rightarrow> error + ((SingleLinkObservationPartialList \<times> ScalingPtr) \<times> Heap)" where
  "createMutualApproximationPartials ext mutualApproximationLinkEnds bodyMap
      parametersToEstimate isCentralInstantUsedAsObservable lightTimeCorrections
      dependentVariablesInterface heap =
    (case lightTimeCorrectionPartialObjectsOf ext lightTimeCorrections of
       Inl e \<Rightarrow> Inl e
     | Inr lightTimeCorrectionPartialObjects \<Rightarrow>
         (let (mutualApproximationScaling, heap1) =
                (if isCentralInstantUsedAsObservable
                 then make_shared (MutualApproximationScaling dependentVariablesInterface) heap
                 else make_shared (ModifiedMutualApproximationScaling dependentVariablesInterface)
                        heap)
          in case initialStateLoop ext mutualApproximationLinkEnds bodyMap
                    mutualApproximationScaling lightTimeCorrectionPartialObjects
                    (getEstimatedInitialStateParameters parametersToEstimate) 0 Map.empty of
               Inl e \<Rightarrow> Inl e
             | Inr (partials1, currentIndex) \<Rightarrow>
                 (let partials2 = doubleParameterLoop ext mutualApproximationLinkEnds bodyMap
                        mutualApproximationScaling lightTimeCorrectionPartialObjects
                        (getDoubleParameters parametersToEstimate) partials1;
                      partials3 = vectorParameterLoop ext mutualApproximationLinkEnds bodyMap
                        mutualApproximationScaling lightTimeCorrectionPartialObjects
                        (getVectorParameters parametersToEstimate) partials2
                  in Inr ((partials3, mutualApproximationScaling), heap1))))"

subsection \<open>Single-link assembly, two-valued observable\<close>






subsection \<open>Assembly over a vector of link ends\<close>

text \<open>
  Lines 297 to 299: one of the three required link end types is not in the link ends.
\<close>

definition requiredLinkEndMissing :: "LinkEnds \<Rightarrow> bool" where
  "requiredLinkEndMissing l \<longleftrightarrow>
     map_of l receiver = None \<or> map_of l transmitter = None \<or> map_of l transmitter2 = None"

text \<open>
  Lines 305 to 318: the correction groups handed to the single-link function, and the
  output so far. A number of groups other than two is written to \<^verbatim>\<open>std::cerr\<close>; the
  groups of the map entry are assigned whatever their number. Without an entry the
  groups are empty.
\<close>

definition currentLightTimeCorrectionsOf ::
  "(LinkEnds \<rightharpoonup> LightTimeCorrection list list) \<Rightarrow> LinkEnds \<Rightarrow> diagnostic list
    \<Rightarrow> LightTimeCorrection list list \<times> diagnostic list" where
  "currentLightTimeCorrectionsOf lightTimeCorrections l cerr =
    (case lightTimeCorrections l of
       Some groups \<Rightarrow>
         (groups,
          if length groups \<noteq> 2
          then cerr @ [LightTimeCorrectionsSizeDiagnostic (length groups)]
          else cerr)
     | None \<Rightarrow> ([], cerr))"

text \<open>
  Lines 294 to 323: the loop over the link ends. Its state is the result map, the store
  and the output on \<^verbatim>\<open>std::cerr\<close>; an exception ends it and leaves only the output.
\<close>

type_synonym LinkEndsPartialsMap =
  "LinkEnds \<rightharpoonup> (SingleLinkObservationPartialList \<times> ScalingPtr)"

fun linkEndsLoop ::
  "Externals \<Rightarrow> NamedBodyMap \<Rightarrow> EstimatableParameterSet \<Rightarrow> bool
    \<Rightarrow> (LinkEnds \<rightharpoonup> LightTimeCorrection list list) \<Rightarrow> DependentVariablesInterface option
    \<Rightarrow> LinkEnds list \<Rightarrow> LinkEndsPartialsMap \<Rightarrow> Heap \<Rightarrow> diagnostic list
    \<Rightarrow> diagnostic list \<times> (error + (LinkEndsPartialsMap \<times> Heap))" where
  "linkEndsLoop ext bodyMap parametersToEstimate isCentral lightTimeCorrections dvi []
      mutualApproximationPartials heap cerr =
     (cerr, Inr (mutualApproximationPartials, heap))"
| "linkEndsLoop ext bodyMap parametersToEstimate isCentral lightTimeCorrections dvi (l # ls)
      mutualApproximationPartials heap cerr =
     (if requiredLinkEndMissing l then (cerr, Inl LinkEndsMissing)
      else
        (let (currentLightTimeCorrections, cerr1) =
               currentLightTimeCorrectionsOf lightTimeCorrections l cerr
         in case createMutualApproximationPartials ext l bodyMap parametersToEstimate isCentral
                   currentLightTimeCorrections dvi heap of
              Inl e \<Rightarrow> (cerr1, Inl e)
            | Inr (partialsOfLink, heap1) \<Rightarrow>
                linkEndsLoop ext bodyMap parametersToEstimate isCentral lightTimeCorrections dvi
                  ls (mutualApproximationPartials(l \<mapsto> partialsOfLink)) heap1 cerr1))"

text \<open>
  \<^verbatim>\<open>createMutualApproximationPartials\<close> for a vector of link ends (lines 274 to 325).
\<close>

definition createMutualApproximationPartialsOfLinkEnds ::
  "Externals \<Rightarrow> LinkEnds list \<Rightarrow> NamedBodyMap \<Rightarrow> EstimatableParameterSet \<Rightarrow> bool
    \<Rightarrow> (LinkEnds \<rightharpoonup> LightTimeCorrection list list) \<Rightarrow> DependentVariablesInterface option
    \<Rightarrow> Heap \<Rightarrow> diagnostic list \<times> (error + (LinkEndsPartialsMap \<times> Heap))" where
  "createMutualApproximationPartialsOfLinkEnds ext linkEnds bodyMap parametersToEstimate
      isCentralInstantUsedAsObservable lightTimeCorrections dependentVariablesInterface heap =
    linkEndsLoop ext bodyMap parametersToEstimate isCentralInstantUsedAsObservable
      lightTimeCorrections dependentVariablesInterface linkEnds Map.empty heap []"

subsection \<open>Index ranges of a parameter set\<close>

text \<open>
  The keys at which the three loops of the single-link function insert: (start, 6) for
  the initial-state parameters, counted from the start index in steps of 6, (index, 1)
  for a double parameter and (index, size) for a vector parameter. In a parameter set
  built by the estimation setup the index ranges of different parameters differ, which
  is \<open>distinct (blockKeys parametersToEstimate)\<close>.
\<close>

fun initialStateKeys :: "cint \<Rightarrow> EstimatableParameter list \<Rightarrow> (cint \<times> cint) list" where
  "initialStateKeys currentIndex [] = []"
| "initialStateKeys currentIndex (p # ps) =
     (currentIndex, 6) # initialStateKeys (currentIndex + 6) ps"

definition doubleParameterKeys :: "(cint \<times> EstimatableParameter) list \<Rightarrow> (cint \<times> cint) list" where
  "doubleParameterKeys ps = map (\<lambda>(first, second). (first, 1)) ps"

definition vectorParameterKeys :: "(cint \<times> EstimatableParameter) list \<Rightarrow> (cint \<times> cint) list" where
  "vectorParameterKeys ps = map (\<lambda>(first, second). (first, getParameterSize second)) ps"

definition blockKeys :: "EstimatableParameterSet \<Rightarrow> (cint \<times> cint) list" where
  "blockKeys parametersToEstimate =
     initialStateKeys 0 (getEstimatedInitialStateParameters parametersToEstimate)
     @ doubleParameterKeys (getDoubleParameters parametersToEstimate)
     @ vectorParameterKeys (getVectorParameters parametersToEstimate)"

subsection \<open>The loops as lists of insertions\<close>

text \<open>
  For the proofs: what the three loops do to the block map, written as one list. An
  entry of the list is the key at which a loop inserts and the pointer it has for that
  key; \<open>insertPartials\<close> puts the entries into the map in the order of the list and
  leaves out the null pointers, as each loop does. \<open>blockAttemptsOf\<close> lists the entries
  of the loops of lines 168 to 200, 202 to 220 and 222 to 254 (or 453 to 540), given
  what the loop has for a body, for a double parameter and for a vector parameter.
\<close>

fun insertPartials :: "('k \<rightharpoonup> 'v) \<Rightarrow> ('k \<times> 'v option) list \<Rightarrow> ('k \<rightharpoonup> 'v)" where
  "insertPartials partials [] = partials"
| "insertPartials partials ((key, None) # rest) = insertPartials partials rest"
| "insertPartials partials ((key, Some partial) # rest) =
     insertPartials (partials(key \<mapsto> partial)) rest"

definition initialStateAttemptsOf ::
  "(string \<Rightarrow> 'v option) \<Rightarrow> cint \<Rightarrow> EstimatableParameter list
    \<Rightarrow> ((cint \<times> cint) \<times> 'v option) list" where
  "initialStateAttemptsOf wrtBody currentIndex ps =
     zip (initialStateKeys currentIndex ps)
       (map (\<lambda>p. wrtBody (fst (snd (getParameterName p)))) ps)"

definition blockAttemptsOf ::
  "(string \<Rightarrow> 'v option) \<Rightarrow> (EstimatableParameter \<Rightarrow> 'v option)
    \<Rightarrow> (EstimatableParameter \<Rightarrow> 'v option) \<Rightarrow> EstimatableParameterSet
    \<Rightarrow> ((cint \<times> cint) \<times> 'v option) list" where
  "blockAttemptsOf wrtBody wrtDouble wrtVector parametersToEstimate =
     initialStateAttemptsOf wrtBody 0 (getEstimatedInitialStateParameters parametersToEstimate)
     @ map (\<lambda>(first, second). ((first, 1), wrtDouble second))
         (getDoubleParameters parametersToEstimate)
     @ map (\<lambda>(first, second). ((first, getParameterSize second), wrtVector second))
         (getVectorParameters parametersToEstimate)"

text \<open>The entries of the single-valued and of the two-valued single-link function.\<close>

definition blockAttempts ::
  "Externals \<Rightarrow> LinkEnds \<Rightarrow> NamedBodyMap \<Rightarrow> ScalingPtr \<Rightarrow> LightTimeCorrectionPartial list list
    \<Rightarrow> EstimatableParameterSet \<Rightarrow> ((cint \<times> cint) \<times> ObservationPartial1 option) list" where
  "blockAttempts ext l bm s c =
     blockAttemptsOf
       (\<lambda>body. map_option MutualApproximationPartialObj
          (createMutualApproximationPartialWrtBodyPosition ext l bm body s c))
       (\<lambda>p. map_option MutualApproximationPartialObj
          (createMutualApproximationPartialWrtParameter ext l bm p s c))
       (vectorParameterPartial ext l bm s c)"


subsection \<open>Example inputs\<close>

text \<open>
  An instance of the functions of other files. A parameter of kind \<open>other_parameter 1\<close>
  has a position partial at every link end, one of kind \<open>other_parameter 2\<close> has one
  light-time correction partial function per correction partial object, one of kind
  \<open>other_parameter 3\<close> is a property of the observation link and has a partial with
  respect to it; a parameter of any other kind has none of these. The partial with
  respect to the position of a body exists if the body is at one of the link ends.
\<close>

definition examplePositionPartial ::
  "LinkEnds \<Rightarrow> string \<Rightarrow> ScalingPtr \<Rightarrow> LightTimeCorrectionPartial list list
    \<Rightarrow> MutualApproximationPartial option" where
  "examplePositionPartial l body s c =
    (if body \<in> set (map (\<lambda>(t, b, r). b) l)
     then Some \<lparr> scaler = s,
                 positionPartialList = map (\<lambda>(t, b, r). (t, 0)) (filter (\<lambda>(t, b, r). b = body) l),
                 parameterIdentifier = (initial_body_state, (body, [])),
                 lighTimeCorrectionPartials = c \<rparr>
     else None)"

definition exampleNumberOfFunctions :: "MutualApproximationPartial \<Rightarrow> cint" where
  "exampleNumberOfFunctions part =
    (if fst (parameterIdentifier part) = other_parameter 2
     then of_nat (length (concat (lighTimeCorrectionPartials part)))
     else 0)"

definition exampleExternals :: Externals where
  "exampleExternals =
    \<lparr> createLightTimeCorrectionPartials = (\<lambda>corrections. corrections),
      createCartesianStatePartialsWrtParameter =
        (\<lambda>l bodyMap p. if fst (getParameterName p) = other_parameter 1
                         then map (\<lambda>(t, b, r). (t, 0)) l else []),
      createMutualApproximationPartialWrtBodyPosition =
        (\<lambda>l bodyMap body s c. examplePositionPartial l body s c),
      createMutualApproximationWithImpactParameterPartialWrtBodyPosition =
        (\<lambda>l bodyMap body s c. examplePositionPartial l body s c),
      getNumberOfLighTimeCorrectionPartialsFunctions = exampleNumberOfFunctions,
      getNumberOfLighTimeCorrectionPartialsFunctions2 = exampleNumberOfFunctions,
      isParameterObservationLinkProperty = (\<lambda>kind. kind = other_parameter 3),
      createObservationPartialWrtLinkProperty =
        (\<lambda>l observable p. if fst (getParameterName p) = other_parameter 3
                            then Some 7 else None) \<rparr>"

text \<open>
  Link ends with the three required roles at the bodies A, B and A; link ends without a
  receiver; a second complete set of link ends.
\<close>

definition exampleLinkEnds :: LinkEnds where
  "exampleLinkEnds =
     [(transmitter, (''A'', [])), (transmitter2, (''B'', [])), (receiver, (''A'', []))]"

definition incompleteLinkEnds :: LinkEnds where
  "incompleteLinkEnds = [(transmitter, (''A'', [])), (transmitter2, (''B'', []))]"

definition otherLinkEnds :: LinkEnds where
  "otherLinkEnds =
     [(transmitter, (''B'', [])), (transmitter2, (''C'', [])), (receiver, (''A'', []))]"

text \<open>
  Parameters: a double parameter that the observable does not depend on, a double
  parameter and a vector parameter of size 3 of the kind that is a property of the
  link. Parameter sets: the empty one; the initial states of A and B with the first
  double parameter at index 20; the same with the double parameter that is a property
  of the link instead; the first with the vector parameter at index 21 added; one with
  an initial-state parameter of a kind the code does not identify.
\<close>

definition initialStateOf :: "string \<Rightarrow> EstimatableParameter" where
  "initialStateOf body =
     \<lparr> getParameterName = (initial_body_state, (body, [])), getParameterSize = 6 \<rparr>"

definition uncoupledDouble :: EstimatableParameter where
  "uncoupledDouble =
     \<lparr> getParameterName = (other_parameter 0, (''P'', [])), getParameterSize = 1 \<rparr>"

definition linkPropertyDouble :: EstimatableParameter where
  "linkPropertyDouble =
     \<lparr> getParameterName = (other_parameter 3, (''A'', [])), getParameterSize = 1 \<rparr>"

definition linkPropertyVector :: EstimatableParameter where
  "linkPropertyVector =
     \<lparr> getParameterName = (other_parameter 3, (''A'', [])), getParameterSize = 3 \<rparr>"

definition emptyParameters :: EstimatableParameterSet where
  "emptyParameters =
     \<lparr> getEstimatedInitialStateParameters = [],
       getDoubleParameters = [],
       getVectorParameters = [] \<rparr>"

definition exampleParameters :: EstimatableParameterSet where
  "exampleParameters =
     \<lparr> getEstimatedInitialStateParameters = [initialStateOf ''A'', initialStateOf ''B''],
       getDoubleParameters = [(20, uncoupledDouble)],
       getVectorParameters = [] \<rparr>"

definition linkPropertyDoubleParameters :: EstimatableParameterSet where
  "linkPropertyDoubleParameters =
     \<lparr> getEstimatedInitialStateParameters = [initialStateOf ''A'', initialStateOf ''B''],
       getDoubleParameters = [(20, linkPropertyDouble)],
       getVectorParameters = [] \<rparr>"

definition linkPropertyVectorParameters :: EstimatableParameterSet where
  "linkPropertyVectorParameters =
     \<lparr> getEstimatedInitialStateParameters = [initialStateOf ''A'', initialStateOf ''B''],
       getDoubleParameters = [(20, uncoupledDouble)],
       getVectorParameters = [(21, linkPropertyVector)] \<rparr>"


text \<open>
  The blocks that the initial states of A and B get on the example link ends without
  corrections, for a given scaling object.
\<close>

definition exampleBlocks :: "ScalingPtr \<Rightarrow> SingleLinkObservationPartialList" where
  "exampleBlocks s =
     [(0, 6) \<mapsto> MutualApproximationPartialObj
         \<lparr> scaler = s, positionPartialList = [(transmitter, 0), (receiver, 0)],
           parameterIdentifier = (initial_body_state, (''A'', [])),
           lighTimeCorrectionPartials = [] \<rparr>,
      (6, 6) \<mapsto> MutualApproximationPartialObj
         \<lparr> scaler = s, positionPartialList = [(transmitter2, 0)],
           parameterIdentifier = (initial_body_state, (''B'', [])),
           lighTimeCorrectionPartials = [] \<rparr>]"

section \<open>Properties\<close>

subsection \<open>Auxiliary facts\<close>


lemma isl_acceleratedBodyOf:
  "isl (acceleratedBodyOf p) \<longleftrightarrow>
     fst (getParameterName p) \<noteq> initial_body_state
     \<and> fst (getParameterName p) \<noteq> arc_wise_initial_body_state"
  by (simp add: acceleratedBodyOf_def)

lemma insertPartials_Cons:
  "insertPartials m ((key, a) # rest)
     = insertPartials (case a of Some v \<Rightarrow> m(key \<mapsto> v) | None \<Rightarrow> m) rest"
  by (cases a) simp_all

lemma insertPartials_append:
  "insertPartials m (xs @ ys) = insertPartials (insertPartials m xs) ys"
  by (induction xs arbitrary: m) (auto simp: insertPartials_Cons)

lemma insertPartials_frame:
  "key \<notin> fst ` set as \<Longrightarrow> insertPartials m as key = m key"
  by (induction as arbitrary: m) (auto simp: insertPartials_Cons split: option.splits)

lemma insertPartials_hit:
  "distinct (map fst as) \<Longrightarrow> (key, a) \<in> set as \<Longrightarrow>
   insertPartials m as key = (case a of Some v \<Rightarrow> Some v | None \<Rightarrow> m key)"
  by (induction as arbitrary: m)
     (auto simp: insertPartials_Cons insertPartials_frame image_iff split: option.splits)

lemma insertPartials_Some:
  "insertPartials m as key = Some v \<Longrightarrow> m key = Some v \<or> (key, Some v) \<in> set as"
  by (induction as arbitrary: m)
     (fastforce simp: insertPartials_Cons split: option.splits if_splits)+


lemma initialStateLoop_eq:
  "initialStateLoop ext l bm s c ps i m =
     (if \<exists>p \<in> set ps. isl (acceleratedBodyOf p) then Inl CouldNotIdentifyParameter
      else Inr (insertPartials m
                  (initialStateAttemptsOf
                     (\<lambda>body. map_option MutualApproximationPartialObj
                        (createMutualApproximationPartialWrtBodyPosition ext l bm body s c))
                     i ps),
                i + 6 * of_nat (length ps)))"
  by (induction ps arbitrary: i m)
     (auto simp: initialStateAttemptsOf_def acceleratedBodyOf_def algebra_simps
       split: option.splits)


lemma doubleParameterLoop_eq:
  "doubleParameterLoop ext l bm s c ps m =
     insertPartials m (map (\<lambda>(first, second). ((first, 1),
        map_option MutualApproximationPartialObj
          (createMutualApproximationPartialWrtParameter ext l bm second s c))) ps)"
  by (induction ps arbitrary: m) (auto split: option.splits)


lemma vectorParameterLoop_eq:
  "vectorParameterLoop ext l bm s c ps m =
     insertPartials m (map (\<lambda>(first, second). ((first, getParameterSize second),
        vectorParameterPartial ext l bm s c second)) ps)"
  by (induction ps arbitrary: m) (auto split: option.splits)


lemma createMutualApproximationPartials_eq:
  "createMutualApproximationPartials ext l bm params flag ltc dvi heap =
     (case lightTimeCorrectionPartialObjectsOf ext ltc of
        Inl e \<Rightarrow> Inl e
      | Inr c \<Rightarrow>
          if \<exists>p \<in> set (getEstimatedInitialStateParameters params). isl (acceleratedBodyOf p)
          then Inl CouldNotIdentifyParameter
          else Inr ((insertPartials Map.empty (blockAttempts ext l bm (Some (length heap)) c params),
                     Some (length heap)),
                    heap @ [if flag then MutualApproximationScaling dvi
                            else ModifiedMutualApproximationScaling dvi]))"
  by (simp add: createMutualApproximationPartials_def make_shared_def initialStateLoop_eq
      doubleParameterLoop_eq vectorParameterLoop_eq blockAttempts_def blockAttemptsOf_def
      insertPartials_append split: sum.splits)


lemma createMutualApproximationPartials_Inl_iff:
  "createMutualApproximationPartials ext l bm params flag ltc dvi heap = Inl e
   \<longleftrightarrow> (length ltc \<noteq> 0 \<and> length ltc \<noteq> 2 \<and> e = LightTimeCorrectionsSizeError (length ltc))
     \<or> ((length ltc = 0 \<or> length ltc = 2)
        \<and> (\<exists>p \<in> set (getEstimatedInitialStateParameters params). isl (acceleratedBodyOf p))
        \<and> e = CouldNotIdentifyParameter)"
  by (cases "lightTimeCorrectionPartialObjectsOf ext ltc")
     (auto simp: createMutualApproximationPartials_eq lightTimeCorrectionPartialObjectsOf_def
       split: if_splits)

lemma length_initialStateKeys [simp]: "length (initialStateKeys i ps) = length ps"
  by (induction ps arbitrary: i) simp_all

lemma nth_initialStateKeys:
  "k < length ps \<Longrightarrow> initialStateKeys i ps ! k = (i + 6 * of_nat k, 6)"
proof (induction ps arbitrary: i k)
  case Nil
  then show ?case by simp
next
  case (Cons p ps)
  then show ?case by (cases k) (simp_all add: algebra_simps)
qed

lemma map_fst_blockAttemptsOf: "map fst (blockAttemptsOf f g h params) = blockKeys params"
  by (simp add: blockAttemptsOf_def blockKeys_def initialStateAttemptsOf_def
      doubleParameterKeys_def vectorParameterKeys_def case_prod_unfold)

lemma double_in_blockAttempts:
  "(first, second) \<in> set (getDoubleParameters params) \<Longrightarrow>
   ((first, 1), map_option MutualApproximationPartialObj
      (createMutualApproximationPartialWrtParameter ext l bm second s c))
     \<in> set (blockAttempts ext l bm s c params)"
  by (force simp: blockAttempts_def blockAttemptsOf_def)

lemma vector_in_blockAttempts:
  "(first, second) \<in> set (getVectorParameters params) \<Longrightarrow>
   ((first, getParameterSize second), vectorParameterPartial ext l bm s c second)
     \<in> set (blockAttempts ext l bm s c params)"
  by (force simp: blockAttempts_def blockAttemptsOf_def)

lemma initialState_in_blockAttempts:
  assumes "k < length (getEstimatedInitialStateParameters params)"
  shows "((6 * of_nat k, 6), map_option MutualApproximationPartialObj
      (createMutualApproximationPartialWrtBodyPosition ext l bm
         (fst (snd (getParameterName (getEstimatedInitialStateParameters params ! k)))) s c))
     \<in> set (blockAttempts ext l bm s c params)"
proof -
  let ?as = "initialStateAttemptsOf (\<lambda>body. map_option MutualApproximationPartialObj
      (createMutualApproximationPartialWrtBodyPosition ext l bm body s c)) 0
      (getEstimatedInitialStateParameters params)"
  from assms have "?as ! k \<in> set ?as"
    by (intro nth_mem) (simp add: initialStateAttemptsOf_def)
  with assms show ?thesis
    by (simp add: blockAttempts_def blockAttemptsOf_def initialStateAttemptsOf_def
        nth_initialStateKeys)
qed



lemma linkEndsLoop_missing:
  "l \<in> set linkEnds \<Longrightarrow> requiredLinkEndMissing l \<Longrightarrow>
   isl (snd (linkEndsLoop ext bm params flag ltcs dvi linkEnds acc heap cerr))"
proof (induction linkEnds arbitrary: acc heap cerr)
  case Nil
  then show ?case by simp
next
  case (Cons a linkEnds)
  then show ?case
    by (cases "requiredLinkEndMissing a") (auto split: prod.splits sum.splits)
qed

lemma linkEndsLoop_groups:
  "l \<in> set linkEnds \<Longrightarrow> ltcs l = Some groups \<Longrightarrow> length groups \<noteq> 0 \<Longrightarrow>
   length groups \<noteq> 2 \<Longrightarrow>
   isl (snd (linkEndsLoop ext bm params flag ltcs dvi linkEnds acc heap cerr))"
proof (induction linkEnds arbitrary: acc heap cerr)
  case Nil
  then show ?case by simp
next
  case (Cons a linkEnds)
  show ?case
  proof (cases "a = l")
    case True
    from Cons.prems have "createMutualApproximationPartials ext l bm params flag groups dvi heap
        = Inl (LightTimeCorrectionsSizeError (length groups))"
      by (simp add: createMutualApproximationPartials_Inl_iff)
    with True Cons.prems show ?thesis
      by (simp add: currentLightTimeCorrectionsOf_def)
  next
    case False
    with Cons.prems have "l \<in> set linkEnds" by auto
    from Cons.IH [OF this Cons.prems(2,3,4)] show ?thesis
      by (simp split: prod.splits sum.splits)
  qed
qed

lemma sint_six_times:
  assumes "6 * n < 2 ^ 31"
  shows "sint (6 * of_nat n :: cint) = 6 * int n"
proof -
  have "int (6 * n) < 2 ^ 31"
    using assms by (metis of_nat_less_iff of_nat_numeral of_nat_power)
  then have "signed_take_bit (31::nat) (int (6 * n)) = int (6 * n)"
    by (intro signed_take_bit_int_eq_self) simp_all
  then have "sint (word_of_nat (6 * n) :: cint) = int (6 * n)"
    by (simp only: signed_of_nat) simp
  then show ?thesis by simp
qed

lemma blockAttempts_Some:
  assumes "(key, Some v) \<in> set (blockAttempts ext l bm s c params)"
  shows "(\<exists>body partial. createMutualApproximationPartialWrtBodyPosition ext l bm body s c
              = Some partial \<and> v = MutualApproximationPartialObj partial)
       \<or> (\<exists>second partial. createMutualApproximationPartialWrtParameter ext l bm second s c
              = Some partial \<and> v = MutualApproximationPartialObj partial)
       \<or> (\<exists>first second. (first, second) \<in> set (getVectorParameters params)
             \<and> key = (first, getParameterSize second)
             \<and> vectorParameterPartial ext l bm s c second = Some v)"
proof -
  let ?f = "\<lambda>body. map_option MutualApproximationPartialObj
      (createMutualApproximationPartialWrtBodyPosition ext l bm body s c)"
  let ?g = "\<lambda>p. map_option MutualApproximationPartialObj
      (createMutualApproximationPartialWrtParameter ext l bm p s c)"
  from assms consider
    (initial) "(key, Some v) \<in> set (initialStateAttemptsOf ?f 0
        (getEstimatedInitialStateParameters params))"
    | (double) second where "Some v = ?g second"
    | (vector) first second where "(first, second) \<in> set (getVectorParameters params)"
        "key = (first, getParameterSize second)"
        "Some v = vectorParameterPartial ext l bm s c second"
    unfolding blockAttempts_def blockAttemptsOf_def by (auto simp: image_iff)
  then show ?thesis
  proof cases
    case initial
    from set_zip_rightD [OF initial [unfolded initialStateAttemptsOf_def]]
    obtain body where "Some v = ?f body" by auto
    then show ?thesis by (cases "createMutualApproximationPartialWrtBodyPosition ext l bm body s c") auto
  next
    case double
    then show ?thesis
      by (cases "createMutualApproximationPartialWrtParameter ext l bm second s c") auto
  next
    case vector
    then show ?thesis by (metis (no_types))
  qed
qed

lemma createMutualApproximationPartials_Inr:
  assumes "createMutualApproximationPartials ext l bm params flag ltc dvi heap
             = Inr ((partials, scaling), heap')"
  shows "\<exists>c. lightTimeCorrectionPartialObjectsOf ext ltc = Inr c
           \<and> scaling = Some (length heap)
           \<and> heap' = heap @ [if flag then MutualApproximationScaling dvi
                             else ModifiedMutualApproximationScaling dvi]
           \<and> partials = insertPartials Map.empty (blockAttempts ext l bm scaling c params)"
  using assms
  by (auto simp: createMutualApproximationPartials_eq split: sum.splits if_splits)

lemma createMutualApproximationPartials_block:
  assumes "createMutualApproximationPartials ext l bm params flag ltc dvi heap
             = Inr ((partials, scaling), heap')"
    and "lightTimeCorrectionPartialObjectsOf ext ltc = Inr c"
    and "distinct (blockKeys params)"
    and "(key, a) \<in> set (blockAttempts ext l bm scaling c params)"
  shows "partials key = a"
proof -
  from createMutualApproximationPartials_Inr [OF assms(1)] assms(2)
  have "partials = insertPartials Map.empty (blockAttempts ext l bm scaling c params)"
    by auto
  moreover from assms(3) have "distinct (map fst (blockAttempts ext l bm scaling c params))"
    by (simp add: blockAttempts_def map_fst_blockAttemptsOf)
  ultimately show ?thesis
    using insertPartials_hit [OF _ assms(4), of Map.empty]
    by (simp split: option.splits)
qed

lemma createMutualApproximationPartialWrtParameter_scaler:
  "createMutualApproximationPartialWrtParameter ext l bm p s c = Some partial \<Longrightarrow>
   scaler partial = s"
  by (auto simp: createMutualApproximationPartialWrtParameter_def Let_def split: if_splits)

text \<open>
  The definitions to unfold when a call is evaluated: those of the example instance of
  the functions of other files, and those of the single-link function.
\<close>

lemmas externals_defs =
  exampleExternals_def examplePositionPartial_def exampleNumberOfFunctions_def

lemmas assembly_defs =
  createMutualApproximationPartials_def lightTimeCorrectionPartialObjectsOf_def
  make_shared_def acceleratedBodyOf_def createMutualApproximationPartialWrtParameter_def
  vectorParameterPartial_def

subsection \<open>A wrong number of correction groups in the assembly over link ends\<close>

text \<open>
  Claim C1, as stated: for a link whose entry in the correction map has a number of
  groups different from 2, the assembly over the link ends writes a diagnostic and goes
  on with empty corrections for that link, so the blocks of the other links are still
  returned. Here the first link has no entry and the second has an entry with one
  group: the diagnostic is written, the entry is handed to the single-link function as
  it is, that function throws, and no map is returned for either link.
\<close>

theorem C1_batch_leg_count_counterexample:
  "createMutualApproximationPartialsOfLinkEnds exampleExternals [exampleLinkEnds, otherLinkEnds] 0
     exampleParameters False [otherLinkEnds \<mapsto> [[5]]] None []
   = ([LightTimeCorrectionsSizeDiagnostic 1], Inl (LightTimeCorrectionsSizeError 1))"
  by (simp add: createMutualApproximationPartialsOfLinkEnds_def requiredLinkEndMissing_def
      currentLightTimeCorrectionsOf_def assembly_defs externals_defs exampleLinkEnds_def
      otherLinkEnds_def exampleParameters_def initialStateOf_def uncoupledDouble_def)

text \<open>
  Claim C1, amended: a link with all three roles whose entry in the correction map has
  a number of groups different from 2 gets a diagnostic, and the groups of the entry are
  handed to the single-link function unchanged. If the number of groups is not 0 either,
  the single-link function throws the error about that number, and an assembly over
  link ends that contain such a link returns no map. (With 0 groups the entry is the
  empty list, and the first part says that the loop goes on with it.)
\<close>

theorem C1_batch_leg_count_amended:
  assumes "lightTimeCorrections l = Some groups" and "length groups \<noteq> 2"
  shows "(\<not> requiredLinkEndMissing l \<longrightarrow>
            linkEndsLoop ext bodyMap parametersToEstimate isCentral lightTimeCorrections dvi
                (l # ls) partialsMap heap cerr
              = (case createMutualApproximationPartials ext l bodyMap parametersToEstimate
                        isCentral groups dvi heap of
                   Inl e \<Rightarrow> (cerr @ [LightTimeCorrectionsSizeDiagnostic (length groups)], Inl e)
                 | Inr (partialsOfLink, heap1) \<Rightarrow>
                     linkEndsLoop ext bodyMap parametersToEstimate isCentral lightTimeCorrections
                       dvi ls (partialsMap(l \<mapsto> partialsOfLink)) heap1
                       (cerr @ [LightTimeCorrectionsSizeDiagnostic (length groups)])))
         \<and> (length groups \<noteq> 0 \<longrightarrow>
              createMutualApproximationPartials ext l bodyMap parametersToEstimate isCentral
                  groups dvi heap
                = Inl (LightTimeCorrectionsSizeError (length groups)))
         \<and> (length groups \<noteq> 0 \<and> l \<in> set linkEnds \<longrightarrow>
              isl (snd (createMutualApproximationPartialsOfLinkEnds ext linkEnds bodyMap
                          parametersToEstimate isCentral lightTimeCorrections dvi heap)))"
  using assms linkEndsLoop_groups [where ltcs = lightTimeCorrections and l = l
      and groups = groups]
  by (simp add: currentLightTimeCorrectionsOf_def createMutualApproximationPartials_Inl_iff
      createMutualApproximationPartialsOfLinkEnds_def)

theorem C1_batch_leg_count_amended_witness:
  "[otherLinkEnds \<mapsto> [[5::nat], [6], [7]]] otherLinkEnds = Some [[5], [6], [7]]
   \<and> length [[5::nat], [6], [7]] \<noteq> 2
   \<and> \<not> requiredLinkEndMissing otherLinkEnds
   \<and> linkEndsLoop exampleExternals 0 exampleParameters False
        [otherLinkEnds \<mapsto> [[5], [6], [7]]] None [otherLinkEnds, exampleLinkEnds] Map.empty [] []
      = ([LightTimeCorrectionsSizeDiagnostic 3], Inl (LightTimeCorrectionsSizeError 3))
   \<and> length [[5::nat], [6], [7]] \<noteq> 0
   \<and> createMutualApproximationPartials exampleExternals otherLinkEnds 0 exampleParameters False
        [[5], [6], [7]] None []
      = Inl (LightTimeCorrectionsSizeError 3)
   \<and> otherLinkEnds \<in> set [exampleLinkEnds, otherLinkEnds]
   \<and> isl (snd (createMutualApproximationPartialsOfLinkEnds exampleExternals
                 [exampleLinkEnds, otherLinkEnds] 0 exampleParameters False
                 [otherLinkEnds \<mapsto> [[5], [6], [7]]] None []))"
proof -
  have h: "[otherLinkEnds \<mapsto> [[5::nat], [6], [7]]] otherLinkEnds = Some [[5], [6], [7]]"
    "length [[5::nat], [6], [7]] \<noteq> 2"
    "\<not> requiredLinkEndMissing otherLinkEnds"
    by (simp_all add: requiredLinkEndMissing_def otherLinkEnds_def)
  from C1_batch_leg_count_amended [where lightTimeCorrections = "[otherLinkEnds \<mapsto> [[5], [6], [7]]]"
      and l = otherLinkEnds and groups = "[[5], [6], [7]]" and ext = exampleExternals
      and bodyMap = 0 and parametersToEstimate = exampleParameters and isCentral = False
      and dvi = None and ls = "[exampleLinkEnds]" and partialsMap = Map.empty and heap = "[]"
      and cerr = "[]" and linkEnds = "[exampleLinkEnds, otherLinkEnds]", OF h(1,2)]
  show ?thesis using h by simp
qed

subsection \<open>The index of the initial-state parameters\<close>

text \<open>
  Claim C2. The loop over the initial-state parameters advances \<^verbatim>\<open>currentIndex\<close> by 6 for
  every parameter, whether or not a block is inserted for it: when every parameter is
  of one of the two kinds the loop accepts, the loop returns, and the index it ends
  with is the index it started with plus 6 times the number of parameters, whatever the
  function that creates the partials answers. The sum is in 32-bit arithmetic; as long
  as 6 times the number of parameters is below \<open>2 ^ 31\<close> it is that number.
\<close>

theorem C2_index_reservation:
  assumes "\<forall>p \<in> set ps. fst (getParameterName p) = initial_body_state
             \<or> fst (getParameterName p) = arc_wise_initial_body_state"
  shows "\<exists>partials' currentIndex'.
           initialStateLoop ext linkEnds bodyMap scaling ltcPartials ps currentIndex partials
             = Inr (partials', currentIndex')
           \<and> currentIndex' - currentIndex = 6 * of_nat (length ps)
           \<and> (6 * length ps < 2 ^ 31 \<longrightarrow>
                sint (currentIndex' - currentIndex) = 6 * int (length ps))"
  using assms by (auto simp: initialStateLoop_eq isl_acceleratedBodyOf sint_six_times)

text \<open>
  The initial states of A and C on the example link ends: C is at no link end, so no
  block is inserted at (6, 6), and the index still ends at 12.
\<close>

theorem C2_index_reservation_witness:
  "fst (getParameterName (initialStateOf ''A'')) = initial_body_state
   \<and> fst (getParameterName (initialStateOf ''C'')) = initial_body_state
   \<and> (\<exists>partials' currentIndex'.
         initialStateLoop exampleExternals exampleLinkEnds 0 (Some 0) []
             [initialStateOf ''A'', initialStateOf ''C''] 0 Map.empty
           = Inr (partials', currentIndex')
         \<and> partials' (6, 6) = None
         \<and> currentIndex' - 0 = 12
         \<and> sint (currentIndex' - 0) = 12)"
proof -
  have kinds: "\<forall>p \<in> set [initialStateOf ''A'', initialStateOf ''C''].
       fst (getParameterName p) = initial_body_state
       \<or> fst (getParameterName p) = arc_wise_initial_body_state"
    "fst (getParameterName (initialStateOf ''A'')) = initial_body_state"
    "fst (getParameterName (initialStateOf ''C'')) = initial_body_state"
    by (simp_all add: initialStateOf_def)
  have run: "partials' (6, 6) = None"
    if "initialStateLoop exampleExternals exampleLinkEnds 0 (Some 0) []
          [initialStateOf ''A'', initialStateOf ''C''] 0 Map.empty = Inr (partials', i)"
    for partials' i
    using that
    by (auto simp: externals_defs exampleLinkEnds_def initialStateOf_def acceleratedBodyOf_def)
  from C2_index_reservation [OF kinds(1), of exampleExternals exampleLinkEnds 0 "Some 0" "[]"
      0 Map.empty]
  show ?thesis using kinds(2,3) run by fastforce
qed

subsection \<open>Absent partials\<close>

text \<open>
  Claim C3, as stated: for every parameter the block map has an entry exactly if there
  is a position partial for it or a light-time correction partial function. A vector
  parameter that is a property of the link does not go that way: here it has no
  position partial and no correction partial function, and the block map has an entry
  for it at (21, 3).
\<close>

theorem C3_null_elision_counterexample:
  "createCartesianStatePartialsWrtParameter exampleExternals exampleLinkEnds 0 linkPropertyVector
     = []
   \<and> getNumberOfLighTimeCorrectionPartialsFunctions exampleExternals
        \<lparr> scaler = Some 0, positionPartialList = [],
          parameterIdentifier = getParameterName linkPropertyVector,
          lighTimeCorrectionPartials = [] \<rparr> = 0
   \<and> getVectorParameters linkPropertyVectorParameters = [(21, linkPropertyVector)]
   \<and> getParameterSize linkPropertyVector = 3
   \<and> createMutualApproximationPartials exampleExternals exampleLinkEnds 0
        linkPropertyVectorParameters False [] None []
      = Inr (((exampleBlocks (Some 0))((21, 3) \<mapsto> LinkPropertyPartialObj1 7), Some 0),
             [ModifiedMutualApproximationScaling None])
   \<and> ((exampleBlocks (Some 0))((21, 3) \<mapsto> LinkPropertyPartialObj1 7)) (21, 3) \<noteq> None"
  by (simp add: assembly_defs externals_defs exampleLinkEnds_def
        linkPropertyVectorParameters_def linkPropertyVector_def uncoupledDouble_def
        initialStateOf_def exampleBlocks_def)

text \<open>
  Claim C3, amended: \<open>createMutualApproximationPartialWrtParameter\<close> returns a null
  pointer exactly if there is no position partial and the number of light-time
  correction partial functions is 0. In the block map of a parameter set whose index
  ranges differ, the entry of a double parameter and of a vector parameter that is not
  a property of the link is absent exactly if that function returns null; the entry of
  a vector parameter that is a property of the link is absent exactly if the constructor
  of partials with respect to a link property returns null; the entry of the k-th
  initial-state parameter, at (6k, 6), is absent exactly if
  \<open>createMutualApproximationPartialWrtBodyPosition\<close> returns null.
\<close>

theorem C3_null_elision_amended:
  assumes "createMutualApproximationPartials ext linkEnds bodyMap parametersToEstimate isCentral
             lightTimeCorrections dvi heap = Inr ((partials, scaling), heap')"
    and "lightTimeCorrectionPartialObjectsOf ext lightTimeCorrections = Inr ltcPartials"
    and "distinct (blockKeys parametersToEstimate)"
  shows "(createMutualApproximationPartialWrtParameter ext linkEnds bodyMap p s c = None
            \<longleftrightarrow> createCartesianStatePartialsWrtParameter ext linkEnds bodyMap p = []
                \<and> getNumberOfLighTimeCorrectionPartialsFunctions ext
                     \<lparr> scaler = s,
                       positionPartialList =
                         createCartesianStatePartialsWrtParameter ext linkEnds bodyMap p,
                       parameterIdentifier = getParameterName p,
                       lighTimeCorrectionPartials = c \<rparr> = 0)
         \<and> (\<forall>(first, second) \<in> set (getDoubleParameters parametersToEstimate).
              partials (first, 1) = None
                \<longleftrightarrow> createMutualApproximationPartialWrtParameter ext linkEnds bodyMap second
                      scaling ltcPartials = None)
         \<and> (\<forall>(first, second) \<in> set (getVectorParameters parametersToEstimate).
              partials (first, getParameterSize second) = None
                \<longleftrightarrow> (if isParameterObservationLinkProperty ext (fst (getParameterName second))
                     then createObservationPartialWrtLinkProperty ext linkEnds
                            mutual_approximation second = None
                     else createMutualApproximationPartialWrtParameter ext linkEnds bodyMap
                            second scaling ltcPartials = None))
         \<and> (\<forall>k < length (getEstimatedInitialStateParameters parametersToEstimate).
              partials (6 * of_nat k, 6) = None
                \<longleftrightarrow> createMutualApproximationPartialWrtBodyPosition ext linkEnds bodyMap
                      (fst (snd (getParameterName
                         (getEstimatedInitialStateParameters parametersToEstimate ! k))))
                      scaling ltcPartials = None)"
  using createMutualApproximationPartials_block [OF assms double_in_blockAttempts]
    createMutualApproximationPartials_block [OF assms vector_in_blockAttempts]
    createMutualApproximationPartials_block [OF assms initialState_in_blockAttempts]
  by (auto simp: vectorParameterPartial_def createMutualApproximationPartialWrtParameter_def
      Let_def)

theorem C3_null_elision_amended_witness:
  "createMutualApproximationPartials exampleExternals exampleLinkEnds 0
       exampleParameters True [] None []
     = Inr ((exampleBlocks (Some 0), Some 0), [MutualApproximationScaling None])
   \<and> lightTimeCorrectionPartialObjectsOf exampleExternals [] = Inr []
   \<and> distinct (blockKeys exampleParameters)
   \<and> createCartesianStatePartialsWrtParameter exampleExternals exampleLinkEnds 0 uncoupledDouble
       = []
   \<and> createMutualApproximationPartialWrtParameter exampleExternals exampleLinkEnds 0
        uncoupledDouble (Some 0) [] = None
   \<and> exampleBlocks (Some 0) (20, 1) = None
   \<and> exampleBlocks (Some 0) (6, 6) \<noteq> None
   \<and> createMutualApproximationPartialWrtBodyPosition exampleExternals exampleLinkEnds 0 ''B''
        (Some 0) [] \<noteq> None"
proof -
  have h: "createMutualApproximationPartials exampleExternals exampleLinkEnds 0
       exampleParameters True [] None []
     = Inr ((exampleBlocks (Some 0), Some 0), [MutualApproximationScaling None])"
    "lightTimeCorrectionPartialObjectsOf exampleExternals [] = Inr []"
    "distinct (blockKeys exampleParameters)"
    by (simp_all add: assembly_defs externals_defs exampleLinkEnds_def exampleParameters_def
        uncoupledDouble_def initialStateOf_def exampleBlocks_def blockKeys_def
        doubleParameterKeys_def vectorParameterKeys_def)
  have mem: "(20, uncoupledDouble) \<in> set (getDoubleParameters exampleParameters)"
    and dyn: "1 < length (getEstimatedInitialStateParameters exampleParameters)"
    and body: "fst (snd (getParameterName
        (getEstimatedInitialStateParameters exampleParameters ! 1))) = ''B''"
    by (simp_all add: exampleParameters_def initialStateOf_def)
  have ev: "createCartesianStatePartialsWrtParameter exampleExternals exampleLinkEnds 0
        uncoupledDouble = []"
    "exampleBlocks (Some 0) (20, 1) = None"
    "exampleBlocks (Some 0) (6, 6) \<noteq> None"
    by (simp_all add: exampleExternals_def uncoupledDouble_def exampleBlocks_def)
  note inst = C3_null_elision_amended [OF h, of uncoupledDouble "Some 0" "[]"]
  note at20 = inst [THEN conjunct2, THEN conjunct1, rule_format, OF mem]
  note at1 = inst [THEN conjunct2, THEN conjunct2, THEN conjunct2, rule_format, OF dyn,
      unfolded body]
  from at20 at1 h ev show ?thesis by simp
qed

subsection \<open>Link ends without a required role\<close>

text \<open>
  Claim C4, as stated: the single-link function, too, fails on link ends that lack one
  of the three roles, before any block is made. It has no such check: on link ends
  without a receiver it returns a block map with two blocks.
\<close>

theorem C4_role_validation_counterexample:
  "requiredLinkEndMissing incompleteLinkEnds
   \<and> createMutualApproximationPartials exampleExternals incompleteLinkEnds 0 exampleParameters
        False [] None []
      = Inr (([(0, 6) \<mapsto> MutualApproximationPartialObj
                  \<lparr> scaler = Some 0, positionPartialList = [(transmitter, 0)],
                    parameterIdentifier = (initial_body_state, (''A'', [])),
                    lighTimeCorrectionPartials = [] \<rparr>,
               (6, 6) \<mapsto> MutualApproximationPartialObj
                  \<lparr> scaler = Some 0, positionPartialList = [(transmitter2, 0)],
                    parameterIdentifier = (initial_body_state, (''B'', [])),
                    lighTimeCorrectionPartials = [] \<rparr>],
              Some 0),
             [ModifiedMutualApproximationScaling None])"
  by (simp add: requiredLinkEndMissing_def assembly_defs externals_defs incompleteLinkEnds_def
      exampleParameters_def initialStateOf_def uncoupledDouble_def)

text \<open>
  Claim C4, amended: the assembly over a vector of link ends throws when the loop comes
  to link ends that lack one of the three roles, before the single-link function is
  called for them, and an assembly over link ends that contain such a link returns no
  map. The single-link function itself does not check the roles: it never throws that
  error.
\<close>

theorem C4_role_validation_amended:
  assumes "requiredLinkEndMissing l"
  shows "linkEndsLoop ext bodyMap parametersToEstimate isCentral lightTimeCorrections dvi
             (l # ls) partialsMap heap cerr
           = (cerr, Inl LinkEndsMissing)
         \<and> (l \<in> set linkEnds \<longrightarrow>
              isl (snd (createMutualApproximationPartialsOfLinkEnds ext linkEnds bodyMap
                          parametersToEstimate isCentral lightTimeCorrections dvi heap)))
         \<and> createMutualApproximationPartials ext l bodyMap parametersToEstimate isCentral
              groups dvi heap \<noteq> Inl LinkEndsMissing"
  using assms
  by (auto simp: createMutualApproximationPartialsOfLinkEnds_def linkEndsLoop_missing
      createMutualApproximationPartials_Inl_iff)

theorem C4_role_validation_amended_witness:
  "requiredLinkEndMissing incompleteLinkEnds
   \<and> linkEndsLoop exampleExternals 0 exampleParameters False Map.empty None
        [incompleteLinkEnds, exampleLinkEnds] Map.empty [] []
      = ([], Inl LinkEndsMissing)
   \<and> incompleteLinkEnds \<in> set [exampleLinkEnds, incompleteLinkEnds]
   \<and> isl (snd (createMutualApproximationPartialsOfLinkEnds exampleExternals
                 [exampleLinkEnds, incompleteLinkEnds] 0 exampleParameters False Map.empty
                 None []))
   \<and> createMutualApproximationPartials exampleExternals incompleteLinkEnds 0
        exampleParameters False [] None [] \<noteq> Inl LinkEndsMissing"
proof -
  have h: "requiredLinkEndMissing incompleteLinkEnds"
    by (simp add: requiredLinkEndMissing_def incompleteLinkEnds_def)
  from C4_role_validation_amended [OF h, of exampleExternals 0 exampleParameters False
      Map.empty None "[exampleLinkEnds]" Map.empty "[]" "[]"
      "[exampleLinkEnds, incompleteLinkEnds]" "[]"]
  show ?thesis using h by simp
qed

subsection \<open>The number of correction groups in the single-link function\<close>

text \<open>
  Claim C5, as stated: for every list of correction groups whose size is not 2 the
  single-link function throws. It does not for the empty list, which is the default
  argument: the check is made only if the list is not empty.
\<close>

theorem C5_leg_count_counterexample:
  "length ([] :: LightTimeCorrection list list) \<noteq> 2
   \<and> createMutualApproximationPartials exampleExternals exampleLinkEnds 0 emptyParameters False
        [] None []
      = Inr ((Map.empty, Some 0), [ModifiedMutualApproximationScaling None])"
  by (simp add: assembly_defs emptyParameters_def)

text \<open>
  Claim C5, amended: the single-link function throws the error about the number of
  correction groups exactly if that number is neither 0 nor 2, whatever the other
  arguments are.
\<close>

theorem C5_leg_count_amended:
  "(\<exists>n. createMutualApproximationPartials ext linkEnds bodyMap parametersToEstimate
           isCentralInstantUsedAsObservable lightTimeCorrections dvi heap
         = Inl (LightTimeCorrectionsSizeError n))
   \<longleftrightarrow> length lightTimeCorrections \<noteq> 0 \<and> length lightTimeCorrections \<noteq> 2"
  by (auto simp: createMutualApproximationPartials_Inl_iff)

theorem C5_leg_count_amended_witness:
  "(\<exists>n. createMutualApproximationPartials exampleExternals exampleLinkEnds 0 exampleParameters
           False [[1]] None [] = Inl (LightTimeCorrectionsSizeError n))
   \<and> length [[1::nat]] \<noteq> 0 \<and> length [[1::nat]] \<noteq> 2"
  using C5_leg_count_amended [of exampleExternals exampleLinkEnds 0 exampleParameters
           False "[[1]]" None "[]"]
  by simp

subsection \<open>The scaling object\<close>

text \<open>
  Claim C6, as stated: every partial of the block map refers to the scaling object that
  the call made. The partial with respect to a link property does not: the scaling
  object is not handed to its constructor. Here the call makes the scaling object at
  address 1, and the block at (21, 3) refers to no scaling object.
\<close>

theorem C6_scaling_sharing_counterexample:
  "createMutualApproximationPartials exampleExternals exampleLinkEnds 0
       linkPropertyVectorParameters True [] (Some 3) [ModifiedMutualApproximationScaling None]
     = Inr (((exampleBlocks (Some 1))((21, 3) \<mapsto> LinkPropertyPartialObj1 7), Some 1),
            [ModifiedMutualApproximationScaling None, MutualApproximationScaling (Some 3)])
   \<and> ((exampleBlocks (Some 1))((21, 3) \<mapsto> LinkPropertyPartialObj1 7)) (21, 3)
       = Some (LinkPropertyPartialObj1 7)
   \<and> scalingOf (LinkPropertyPartialObj1 7) \<noteq> Some 1"
  by (simp add: assembly_defs externals_defs exampleLinkEnds_def
        linkPropertyVectorParameters_def linkPropertyVector_def uncoupledDouble_def
        initialStateOf_def exampleBlocks_def)

text \<open>
  Claim C6, amended: a call of the single-link function that returns has made exactly
  one scaling object, a \<open>MutualApproximationScaling\<close> if the flag is set and a
  \<open>ModifiedMutualApproximationScaling\<close> if not; the reference it returns is the reference
  to that object; and every \<open>MutualApproximationPartial\<close> of the block map refers to that
  object, provided \<open>createMutualApproximationPartialWrtBodyPosition\<close> (defined in another
  file) builds its partial on the scaling object it is given. The other partials of the
  block map are partials with respect to a link property, at the keys of vector
  parameters of that kind.
\<close>

theorem C6_scaling_sharing_amended:
  assumes "createMutualApproximationPartials ext linkEnds bodyMap parametersToEstimate
             isCentralInstantUsedAsObservable lightTimeCorrections dvi heap
           = Inr ((partials, scaling), heap')"
    and "\<forall>body s c partial.
           createMutualApproximationPartialWrtBodyPosition ext linkEnds bodyMap body s c
             = Some partial \<longrightarrow> scaler partial = s"
  shows "scaling = Some (length heap)
         \<and> heap' = heap @ [if isCentralInstantUsedAsObservable
                           then MutualApproximationScaling dvi
                           else ModifiedMutualApproximationScaling dvi]
         \<and> (\<forall>key partial. partials key = Some (MutualApproximationPartialObj partial)
               \<longrightarrow> scaler partial = scaling)
         \<and> (\<forall>key partial. partials key = Some (LinkPropertyPartialObj1 partial)
               \<longrightarrow> (\<exists>(first, second) \<in> set (getVectorParameters parametersToEstimate).
                      key = (first, getParameterSize second)
                      \<and> isParameterObservationLinkProperty ext (fst (getParameterName second))
                      \<and> createObservationPartialWrtLinkProperty ext linkEnds
                           mutual_approximation second = Some partial))"
proof -
  from createMutualApproximationPartials_Inr [OF assms(1)] obtain c where
    alloc: "scaling = Some (length heap)"
      "heap' = heap @ [if isCentralInstantUsedAsObservable
                       then MutualApproximationScaling dvi
                       else ModifiedMutualApproximationScaling dvi]"
    and blocks: "partials = insertPartials Map.empty
               (blockAttempts ext linkEnds bodyMap scaling c parametersToEstimate)"
    by blast
  have entry: "(key, Some v) \<in> set (blockAttempts ext linkEnds bodyMap scaling c
      parametersToEstimate)" if "partials key = Some v" for key v
    using insertPartials_Some [of Map.empty _ key v] that blocks by simp
  have position: "scaler partial = scaling"
    if "partials key = Some (MutualApproximationPartialObj partial)" for key partial
    using blockAttempts_Some [OF entry [OF that]] assms(2)
    by (auto simp: vectorParameterPartial_def split: if_splits
        dest: createMutualApproximationPartialWrtParameter_scaler)
  have property: "\<exists>(first, second) \<in> set (getVectorParameters parametersToEstimate).
        key = (first, getParameterSize second)
        \<and> isParameterObservationLinkProperty ext (fst (getParameterName second))
        \<and> createObservationPartialWrtLinkProperty ext linkEnds mutual_approximation second
            = Some partial"
    if "partials key = Some (LinkPropertyPartialObj1 partial)" for key partial
    using blockAttempts_Some [OF entry [OF that]]
    by (fastforce simp: vectorParameterPartial_def split: if_splits)
  from alloc position property show ?thesis by blast
qed

theorem C6_scaling_sharing_amended_witness:
  "createMutualApproximationPartials exampleExternals exampleLinkEnds 0
       linkPropertyVectorParameters False [] None [MutualApproximationScaling None]
     = Inr (((exampleBlocks (Some 1))((21, 3) \<mapsto> LinkPropertyPartialObj1 7), Some 1),
            [MutualApproximationScaling None, ModifiedMutualApproximationScaling None])
   \<and> scaler (the (examplePositionPartial exampleLinkEnds ''A'' (Some 1) [])) = Some 1
   \<and> Some (1::nat) = Some (length [MutualApproximationScaling None])"
proof -
  have h1: "createMutualApproximationPartials exampleExternals exampleLinkEnds 0
       linkPropertyVectorParameters False [] None [MutualApproximationScaling None]
     = Inr (((exampleBlocks (Some 1))((21, 3) \<mapsto> LinkPropertyPartialObj1 7), Some 1),
            [MutualApproximationScaling None, ModifiedMutualApproximationScaling None])"
    by (simp add: assembly_defs externals_defs exampleLinkEnds_def
        linkPropertyVectorParameters_def linkPropertyVector_def uncoupledDouble_def
        initialStateOf_def exampleBlocks_def)
  have h2: "\<forall>body s c partial.
           createMutualApproximationPartialWrtBodyPosition exampleExternals exampleLinkEnds 0
             body s c = Some partial \<longrightarrow> scaler partial = s"
    by (auto simp: exampleExternals_def examplePositionPartial_def split: if_splits)
  have ev: "scaler (the (examplePositionPartial exampleLinkEnds ''A'' (Some 1) [])) = Some 1"
    by (simp add: examplePositionPartial_def exampleLinkEnds_def)
  from C6_scaling_sharing_amended [OF h1 h2] h1 ev show ?thesis by simp
qed

subsection \<open>Double and vector parameters\<close>

text \<open>
  Claim C7, as stated: a double parameter that is a property of the observation link
  goes to the constructor of partials with respect to a link property, and a block of
  size 1 is inserted when that returns a partial. The loop over the double parameters
  has no such branch. Here the double parameter at index 20 is a property of the link
  and the constructor has a partial for it, and the block map has no entry at (20, 1).
\<close>

theorem C7_scalar_dispatch_counterexample:
  "isParameterObservationLinkProperty exampleExternals (fst (getParameterName linkPropertyDouble))
   \<and> createObservationPartialWrtLinkProperty exampleExternals exampleLinkEnds
        mutual_approximation linkPropertyDouble = Some 7
   \<and> getDoubleParameters linkPropertyDoubleParameters = [(20, linkPropertyDouble)]
   \<and> createMutualApproximationPartials exampleExternals exampleLinkEnds 0
        linkPropertyDoubleParameters False [] None []
      = Inr ((exampleBlocks (Some 0), Some 0), [ModifiedMutualApproximationScaling None])
   \<and> exampleBlocks (Some 0) (20, 1) = None"
  by (simp add: assembly_defs externals_defs exampleLinkEnds_def
      linkPropertyDoubleParameters_def linkPropertyDouble_def initialStateOf_def
      exampleBlocks_def)

text \<open>
  Claim C7, amended: every double parameter, of whatever kind, takes the path through
  the position partials, and the block map has at (index, 1) exactly what
  \<open>createMutualApproximationPartialWrtParameter\<close> returns for it. Only a vector parameter
  is dispatched on its kind: at (index, size) the block map has the partial with
  respect to the link property if the parameter is one, and what
  \<open>createMutualApproximationPartialWrtParameter\<close> returns otherwise. (For a parameter set
  whose index ranges differ.)
\<close>

theorem C7_scalar_dispatch_amended:
  assumes "createMutualApproximationPartials ext linkEnds bodyMap parametersToEstimate isCentral
             lightTimeCorrections dvi heap = Inr ((partials, scaling), heap')"
    and "lightTimeCorrectionPartialObjectsOf ext lightTimeCorrections = Inr ltcPartials"
    and "distinct (blockKeys parametersToEstimate)"
  shows "(\<forall>(first, second) \<in> set (getDoubleParameters parametersToEstimate).
            partials (first, 1)
              = map_option MutualApproximationPartialObj
                  (createMutualApproximationPartialWrtParameter ext linkEnds bodyMap second
                     scaling ltcPartials))
         \<and> (\<forall>(first, second) \<in> set (getVectorParameters parametersToEstimate).
              partials (first, getParameterSize second)
                = (if isParameterObservationLinkProperty ext (fst (getParameterName second))
                   then map_option LinkPropertyPartialObj1
                          (createObservationPartialWrtLinkProperty ext linkEnds
                             mutual_approximation second)
                   else map_option MutualApproximationPartialObj
                          (createMutualApproximationPartialWrtParameter ext linkEnds bodyMap
                             second scaling ltcPartials)))"
  using createMutualApproximationPartials_block [OF assms double_in_blockAttempts]
    createMutualApproximationPartials_block [OF assms vector_in_blockAttempts]
  by (auto simp: vectorParameterPartial_def)

theorem C7_scalar_dispatch_amended_witness:
  "createMutualApproximationPartials exampleExternals exampleLinkEnds 0
       linkPropertyVectorParameters False [] None []
     = Inr (((exampleBlocks (Some 0))((21, 3) \<mapsto> LinkPropertyPartialObj1 7), Some 0),
            [ModifiedMutualApproximationScaling None])
   \<and> lightTimeCorrectionPartialObjectsOf exampleExternals [] = Inr []
   \<and> distinct (blockKeys linkPropertyVectorParameters)
   \<and> ((exampleBlocks (Some 0))((21, 3) \<mapsto> LinkPropertyPartialObj1 7)) (20, 1)
       = map_option MutualApproximationPartialObj
           (createMutualApproximationPartialWrtParameter exampleExternals exampleLinkEnds 0
              uncoupledDouble (Some 0) [])
   \<and> ((exampleBlocks (Some 0))((21, 3) \<mapsto> LinkPropertyPartialObj1 7)) (21, 3)
       = map_option LinkPropertyPartialObj1
           (createObservationPartialWrtLinkProperty exampleExternals exampleLinkEnds
              mutual_approximation linkPropertyVector)"
proof -
  have h: "createMutualApproximationPartials exampleExternals exampleLinkEnds 0
       linkPropertyVectorParameters False [] None []
     = Inr (((exampleBlocks (Some 0))((21, 3) \<mapsto> LinkPropertyPartialObj1 7), Some 0),
            [ModifiedMutualApproximationScaling None])"
    "lightTimeCorrectionPartialObjectsOf exampleExternals [] = Inr []"
    "distinct (blockKeys linkPropertyVectorParameters)"
    by (simp_all add: assembly_defs externals_defs exampleLinkEnds_def
        linkPropertyVectorParameters_def linkPropertyVector_def uncoupledDouble_def
        initialStateOf_def exampleBlocks_def blockKeys_def doubleParameterKeys_def
        vectorParameterKeys_def)
  have mem: "(20, uncoupledDouble) \<in> set (getDoubleParameters linkPropertyVectorParameters)"
    "(21, linkPropertyVector) \<in> set (getVectorParameters linkPropertyVectorParameters)"
    "isParameterObservationLinkProperty exampleExternals
      (fst (getParameterName linkPropertyVector))"
    "getParameterSize linkPropertyVector = 3"
    by (simp_all add: linkPropertyVectorParameters_def linkPropertyVector_def
        exampleExternals_def)
  from C7_scalar_dispatch_amended [OF h] mem
  show ?thesis using h by fastforce
qed

subsection \<open>Initial-state parameters of an unknown kind\<close>



subsection \<open>The two single-link functions side by side\<close>



subsection \<open>The empty parameter set\<close>



end
